theory Spec2Isabelle
  imports Complex_Main "HOL-Library.Word"
begin

section \<open>JavaScript values used by the frontend\<close>

text \<open>
  A JavaScript string is a sequence of UTF-16 code units. \<open>lit\<close> embeds an ASCII
  literal of the source.
\<close>

type_synonym jsstring = "16 word list"

definition lit :: "string \<Rightarrow> jsstring" where
  "lit s = map of_char s"

text \<open>
  \<open>String.prototype.trim\<close> removes the code points of ECMAScript's WhiteSpace and
  LineTerminator productions from both ends: TAB, LF, VT, FF, CR, SP, NBSP, the
  space separators U+1680, U+2000..U+200A, U+202F, U+205F, U+3000, the separators
  U+2028 and U+2029, and U+FEFF. All of them are single code units.
\<close>

definition js_whitespace :: "16 word \<Rightarrow> bool" where
  "js_whitespace c \<longleftrightarrow>
     c \<in> {0x9, 0xA, 0xB, 0xC, 0xD, 0x20, 0xA0, 0x1680, 0x2028, 0x2029, 0x202F, 0x205F,
          0x3000, 0xFEFF}
     \<or> (0x2000 \<le> c \<and> c \<le> 0x200A)"

definition trim :: "jsstring \<Rightarrow> jsstring" where
  "trim s = rev (dropWhile js_whitespace (rev (dropWhile js_whitespace s)))"

text \<open>
  The values a parsed JSON body can hold, and \<open>undefined\<close>. A number is an IEEE
  double in the program; the frontend only tests numbers for truthiness, and JSON has
  no NaN, so the model keeps the numeric value and tests it against zero. An object is
  the list of its own properties, each key once.
\<close>

datatype jsval =
    JUndefined
  | JNull
  | JBool bool
  | JNum real
  | JStr jsstring
  | JArr "jsval list"
  | JObj "(jsstring \<times> jsval) list"

fun truthy :: "jsval \<Rightarrow> bool" where
  "truthy JUndefined = False"
| "truthy JNull = False"
| "truthy (JBool b) = b"
| "truthy (JNum x) = (x \<noteq> 0)"
| "truthy (JStr s) = (s \<noteq> [])"
| "truthy (JArr xs) = True"
| "truthy (JObj kvs) = True"

text \<open>The operator \<open>a || b\<close>.\<close>

definition js_or :: "jsval \<Rightarrow> jsval \<Rightarrow> jsval" where
  "js_or a b = (if truthy a then a else b)"

text \<open>
  The failures of the frontend code: a TypeError of the language, and the error React
  raises for a value that cannot be a child of an element.
\<close>

datatype js_error = TypeError | InvalidChildError

fun nullish :: "jsval \<Rightarrow> bool" where
  "nullish JUndefined = True"
| "nullish JNull = True"
| "nullish v = False"

text \<open>
  Reading a named field \<open>v.k\<close> of a value that is neither \<open>null\<close> nor
  \<open>undefined\<close>. The frontend reads only the response fields \<open>urgency_level\<close>,
  \<open>emergency_contacts\<close>, \<open>response_id\<close>, \<open>synthesized_answer\<close>, \<open>answer\<close>,
  \<open>confidence\<close>, \<open>confidence_score\<close>, \<open>sources\<close>, \<open>key_points\<close>,
  \<open>related_topics\<close>, \<open>recommended_resources\<close>, \<open>next_steps\<close>, \<open>timestamp\<close>, and
  the contact fields \<open>name\<close> and \<open>phone\<close>; none of them is a member of a built-in
  prototype of a JSON value, so the read yields the object's own property or \<open>undefined\<close>.
\<close>

fun own_field :: "jsval \<Rightarrow> jsstring \<Rightarrow> jsval" where
  "own_field (JObj kvs) k = (case map_of kvs k of None \<Rightarrow> JUndefined | Some v \<Rightarrow> v)"
| "own_field v k = JUndefined"

text \<open>\<open>v.k\<close> raises a TypeError on \<open>null\<close> and \<open>undefined\<close>; \<open>v?.k\<close> yields \<open>undefined\<close> there.\<close>

definition get_field :: "jsval \<Rightarrow> jsstring \<Rightarrow> js_error + jsval" where
  "get_field v k = (if nullish v then Inl TypeError else Inr (own_field v k))"

definition opt_field :: "jsval \<Rightarrow> jsstring \<Rightarrow> jsval" where
  "opt_field v k = (if nullish v then JUndefined else own_field v k)"

text \<open>
  Conversion to a primitive, as a template string, a property key and \<open>new Date(v)\<close>
  do it. An object converts through \<open>toString\<close> and \<open>valueOf\<close>: an own property
  \<open>toString\<close> of a parsed JSON value is never callable, and the inherited
  \<open>valueOf\<close> returns the object itself, so the conversion raises a TypeError exactly
  when the object has an own \<open>toString\<close>; otherwise the inherited \<open>toString\<close>
  answers. An array joins the strings of its elements (empty for \<open>null\<close> and
  \<open>undefined\<close>), so it converts when its elements do.
\<close>

fun stringifiable :: "jsval \<Rightarrow> bool" where
  "stringifiable (JObj kvs) = (map_of kvs (lit ''toString'') = None)"
| "stringifiable (JArr xs) = list_all stringifiable xs"
| "stringifiable v = True"

text \<open>
  What React accepts as a child of an element: strings and numbers print, \<open>null\<close>,
  \<open>undefined\<close> and booleans print nothing, an array stands for its elements, and a
  plain object is refused with an error.
\<close>

fun valid_child :: "jsval \<Rightarrow> bool" where
  "valid_child (JObj kvs) = False"
| "valid_child (JArr xs) = list_all valid_child xs"
| "valid_child v = True"


section \<open>The API service (services/api.js)\<close>

datatype http_method = GET | POST

text \<open>
  The part of an axios configuration that \<open>api.js\<close> sets. \<open>timeout\<close> is in
  milliseconds; axios documents \<open>0\<close> as "no timeout", and \<open>0\<close> is the default of the
  library's global instance.
\<close>

record axios_config =
  baseURL :: jsstring
  headers :: "(jsstring \<times> jsstring) list"
  timeout :: nat

record axios_request =
  req_method :: http_method
  req_baseURL :: jsstring
  req_url :: jsstring
  req_headers :: "(jsstring \<times> jsstring) list"
  req_timeout :: nat
  req_data :: "jsval option"

definition axios_defaults :: axios_config where
  "axios_defaults = \<lparr>baseURL = [], headers = [], timeout = 0\<rparr>"

definition API_VERSION :: jsstring where
  "API_VERSION = lit ''/api/v1''"

text \<open>\<open>API_BASE_URL\<close> comes from the build environment and is a parameter.\<close>

definition apiClient :: "jsstring \<Rightarrow> axios_config" where
  "apiClient API_BASE_URL =
     \<lparr>baseURL = API_BASE_URL @ API_VERSION,
      headers = [(lit ''Content-Type'', lit ''application/json'')],
      timeout = 30000\<rparr>"

text \<open>
  A request issued through an instance takes the instance's configuration; none of the
  calls in \<open>api.js\<close> passes a per-request configuration. The two interceptors only log
  and pass the configuration, the response and the error on.
\<close>

definition issue :: "axios_config \<Rightarrow> http_method \<Rightarrow> jsstring \<Rightarrow> jsval option \<Rightarrow> axios_request" where
  "issue cfg m url body =
     \<lparr>req_method = m, req_baseURL = baseURL cfg, req_url = url,
      req_headers = headers cfg, req_timeout = timeout cfg, req_data = body\<rparr>"

definition sendQuery_request :: "jsstring \<Rightarrow> jsval \<Rightarrow> axios_request" where
  "sendQuery_request API_BASE_URL queryData =
     issue (apiClient API_BASE_URL) POST (lit ''/query'') (Some queryData)"

definition getStats_request :: "jsstring \<Rightarrow> axios_request" where
  "getStats_request API_BASE_URL = issue (apiClient API_BASE_URL) GET (lit ''/stats'') None"

definition ingestDocument_request :: "jsstring \<Rightarrow> jsval \<Rightarrow> axios_request" where
  "ingestDocument_request API_BASE_URL documentData =
     issue (apiClient API_BASE_URL) POST (lit ''/ingest'') (Some documentData)"

text \<open>\<open>checkHealth\<close> calls \<open>axios.get\<close> on the library's global instance.\<close>

definition checkHealth_request :: "jsstring \<Rightarrow> axios_request" where
  "checkHealth_request API_BASE_URL =
     issue axios_defaults GET (API_BASE_URL @ lit ''/health'') None"

definition has_bounded_timeout :: "axios_request \<Rightarrow> bool" where
  "has_bounded_timeout r \<longleftrightarrow> 0 < req_timeout r"

text \<open>
  The outcome of a call: the promise resolves with \<open>response.data\<close> or rejects with an
  error. Each exported function awaits the request and rethrows, so it settles as the
  request does; the network is the parameter \<open>net\<close>.
\<close>

datatype api_outcome = Resolved jsval | Rejected jsval

definition sendQuery :: "(axios_request \<Rightarrow> api_outcome) \<Rightarrow> jsstring \<Rightarrow> jsval \<Rightarrow> api_outcome" where
  "sendQuery net API_BASE_URL queryData = net (sendQuery_request API_BASE_URL queryData)"

definition checkHealth :: "(axios_request \<Rightarrow> api_outcome) \<Rightarrow> jsstring \<Rightarrow> api_outcome" where
  "checkHealth net API_BASE_URL = net (checkHealth_request API_BASE_URL)"

definition getStats :: "(axios_request \<Rightarrow> api_outcome) \<Rightarrow> jsstring \<Rightarrow> api_outcome" where
  "getStats net API_BASE_URL = net (getStats_request API_BASE_URL)"

definition ingestDocument :: "(axios_request \<Rightarrow> api_outcome) \<Rightarrow> jsstring \<Rightarrow> jsval \<Rightarrow> api_outcome" where
  "ingestDocument net API_BASE_URL documentData =
     net (ingestDocument_request API_BASE_URL documentData)"


section \<open>The chat component (components/Chat.jsx)\<close>

datatype message_type = MsgSystem | MsgUser | MsgAssistant | MsgError

text \<open>
  Message ids: the literal \<open>'welcome'\<close>, the template strings \<open>user_<Date.now()>\<close> and
  \<open>error_<Date.now()>\<close>, and \<open>response.response_id\<close>. Timestamps: \<open>new Date()\<close> at a
  clock reading, and \<open>new Date(v)\<close> of a response value.
\<close>

datatype message_id = WelcomeId | UserId nat | ErrorId nat | ResponseId jsval

datatype date = DateNow nat | DateOf jsval

record assistant_fields =
  msg_urgency :: jsval
  msg_confidence :: jsval
  msg_confidenceScore :: jsval
  msg_sources :: jsval
  msg_keyPoints :: jsval
  msg_relatedTopics :: jsval
  msg_resources :: jsval
  msg_nextSteps :: jsval

record message =
  msg_id :: message_id
  msg_type :: message_type
  content :: jsval
  timestamp :: date
  assistant :: "assistant_fields option"

record chat_state =
  messages :: "message list"
  inputText :: jsstring
  isLoading :: bool
  sessionId :: jsstring
  showEmergencyBanner :: bool
  emergencyContacts :: jsval

definition welcome_message :: "nat \<Rightarrow> message" where
  "welcome_message now =
     \<lparr>msg_id = WelcomeId, msg_type = MsgSystem,
      content = JStr (lit ''Hello, I'' @ [0x27] @ lit ''m EchoMind '' @ [0xF0, 0x178, 0x2019, 0x2122]
                 @ lit '' I'' @ [0x27] @ lit ''m here to help you find mental wellness resources and support. What''
                 @ [0x27] @ lit ''s on your mind today?''),
      timestamp = DateNow now, assistant = None\<rparr>"

text \<open>The state at mount; \<open>sessionId\<close> is \<open>session_<Date.now()>\<close>, kept as given.\<close>

definition initial_state :: "nat \<Rightarrow> jsstring \<Rightarrow> chat_state" where
  "initial_state now sid =
     \<lparr>messages = [welcome_message now], inputText = [], isLoading = False, sessionId = sid,
      showEmergencyBanner = False, emergencyContacts = JArr []\<rparr>"

definition userMessage :: "nat \<Rightarrow> chat_state \<Rightarrow> message" where
  "userMessage now s =
     \<lparr>msg_id = UserId now, msg_type = MsgUser, content = JStr (trim (inputText s)),
      timestamp = DateNow now, assistant = None\<rparr>"

definition errorMessage :: "nat \<Rightarrow> message" where
  "errorMessage now =
     \<lparr>msg_id = ErrorId now, msg_type = MsgError,
      content = JStr (lit ''I apologize, but I encountered an issue. Please try again or contact support if the problem persists.''),
      timestamp = DateNow now, assistant = None\<rparr>"

definition queryData :: "nat \<Rightarrow> chat_state \<Rightarrow> jsval" where
  "queryData now s =
     JObj [(lit ''query'', content (userMessage now s)),
           (lit ''session_id'', JStr (sessionId s)),
           (lit ''user_location'', JNull),
           (lit ''preferences'', JObj [])]"

definition aiMessage :: "jsval \<Rightarrow> message" where
  "aiMessage response =
     (let answer = opt_field (own_field response (lit ''synthesized_answer''))
      in \<lparr>msg_id = ResponseId (own_field response (lit ''response_id'')),
          msg_type = MsgAssistant,
          content = js_or (answer (lit ''answer''))
                      (JStr (lit ''I'' @ [0x27] @ lit ''m having trouble processing that right now.'')),
          timestamp = DateOf (own_field response (lit ''timestamp'')),
          assistant = Some
            \<lparr>msg_urgency = own_field response (lit ''urgency_level''),
             msg_confidence = answer (lit ''confidence''),
             msg_confidenceScore = answer (lit ''confidence_score''),
             msg_sources = js_or (answer (lit ''sources'')) (JArr []),
             msg_keyPoints = js_or (answer (lit ''key_points'')) (JArr []),
             msg_relatedTopics = js_or (answer (lit ''related_topics'')) (JArr []),
             msg_resources = js_or (own_field response (lit ''recommended_resources'')) (JArr []),
             msg_nextSteps = js_or (own_field response (lit ''next_steps'')) (JArr [])\<rparr>\<rparr>)"

text \<open>
  The body of the \<open>try\<close> block after the awaited call resolved; \<open>Inl (e, s')\<close> says
  that it raised \<open>e\<close> after the setters called so far had led to \<open>s'\<close>. Two places
  can raise. Reading \<open>response.urgency_level\<close>, the first access, raises on a \<open>null\<close>
  or \<open>undefined\<close> body, before any setter. \<open>new Date(response.timestamp)\<close>, evaluated
  while the assistant message is built and so after the banner setters, raises when the
  timestamp does not convert to a primitive; then the message is not added.
\<close>

definition on_response :: "jsval \<Rightarrow> chat_state \<Rightarrow> js_error \<times> chat_state + chat_state" where
  "on_response response s =
     (case get_field response (lit ''urgency_level'') of
        Inl e \<Rightarrow> Inl (e, s)
      | Inr level \<Rightarrow>
          (let s1 = (if level = JStr (lit ''critical'') \<or> level = JStr (lit ''high'')
                     then s\<lparr>showEmergencyBanner := True,
                            emergencyContacts :=
                              js_or (own_field response (lit ''emergency_contacts'')) (JArr [])\<rparr>
                     else s)
           in if stringifiable (own_field response (lit ''timestamp''))
              then Inr (s1\<lparr>messages := messages s1 @ [aiMessage response]\<rparr>)
              else Inl (TypeError, s1)))"

definition on_error :: "nat \<Rightarrow> chat_state \<Rightarrow> chat_state" where
  "on_error now s = s\<lparr>messages := messages s @ [errorMessage now]\<rparr>"

text \<open>What runs once the call has settled: \<open>try\<close> body or \<open>catch\<close>, then \<open>finally\<close>.\<close>

definition on_settled :: "nat \<Rightarrow> api_outcome \<Rightarrow> chat_state \<Rightarrow> chat_state" where
  "on_settled now outcome s =
     (let s1 = (case outcome of
                  Rejected e \<Rightarrow> on_error now s
                | Resolved response \<Rightarrow>
                    (case on_response response s of
                       Inl (e, s2) \<Rightarrow> on_error now s2
                     | Inr s2 \<Rightarrow> s2))
      in s1\<lparr>isLoading := False\<rparr>)"

text \<open>
  \<open>handleSendMessage\<close>: \<open>t0\<close> is the clock at submission, \<open>t1\<close> the clock when the
  call has settled. The result is the chat state after the handler has finished and the
  request it sent, if any. \<open>e.preventDefault()\<close> and the final \<open>focus()\<close> act on the DOM
  and not on the chat state.
\<close>

definition handleSendMessage ::
  "(axios_request \<Rightarrow> api_outcome) \<Rightarrow> jsstring \<Rightarrow> nat \<Rightarrow> nat \<Rightarrow> chat_state
     \<Rightarrow> chat_state \<times> axios_request option" where
  "handleSendMessage net API_BASE_URL t0 t1 s =
     (if trim (inputText s) = [] \<or> isLoading s then (s, None)
      else
        (let s1 = s\<lparr>messages := messages s @ [userMessage t0 s], inputText := [],
                     isLoading := True\<rparr>;
             outcome = sendQuery net API_BASE_URL (queryData t0 s)
         in (on_settled t1 outcome s1, Some (sendQuery_request API_BASE_URL (queryData t0 s)))))"


subsection \<open>Rendering: the emergency banner and the confidence badge\<close>

text \<open>
  \<open>EmergencyBanner\<close> maps the contacts to one link each: the link's target is the
  template string \<open>tel:${contact.phone}\<close>, and its children show \<open>contact.name\<close> and
  \<open>contact.phone\<close>. \<open>contacts.map\<close> exists on arrays only. In the callback, reading a
  field of a \<open>null\<close> or \<open>undefined\<close> contact raises, and so does the template string
  for a phone that does not convert to a string. When the callback has built every
  link, React renders them and refuses a name or a phone that is not a valid child.
\<close>

record contact_link =
  link_name :: jsval
  link_phone :: jsval

definition link_of :: "jsval \<Rightarrow> contact_link" where
  "link_of contact =
     \<lparr>link_name = own_field contact (lit ''name''),
      link_phone = own_field contact (lit ''phone'')\<rparr>"

definition contact_entry :: "jsval \<Rightarrow> js_error + contact_link" where
  "contact_entry contact =
     (if nullish contact then Inl TypeError
      else if \<not> stringifiable (own_field contact (lit ''phone'')) then Inl TypeError
      else Inr (link_of contact))"

definition valid_link :: "contact_link \<Rightarrow> bool" where
  "valid_link l \<longleftrightarrow> valid_child (link_name l) \<and> valid_child (link_phone l)"

fun map_entries :: "jsval list \<Rightarrow> js_error + contact_link list" where
  "map_entries [] = Inr []"
| "map_entries (c # cs) =
     (case contact_entry c of
        Inl e \<Rightarrow> Inl e
      | Inr l \<Rightarrow> (case map_entries cs of Inl e \<Rightarrow> Inl e | Inr ls \<Rightarrow> Inr (l # ls)))"

fun EmergencyBanner :: "jsval \<Rightarrow> js_error + contact_link list" where
  "EmergencyBanner (JArr contacts) =
     (case map_entries contacts of
        Inl e \<Rightarrow> Inl e
      | Inr ls \<Rightarrow> (if list_all valid_link ls then Inr ls else Inl InvalidChildError))"
| "EmergencyBanner v = Inl TypeError"

text \<open>
  A contact the banner can show: not \<open>null\<close> or \<open>undefined\<close>, with a phone that
  converts to a string, and with a name and a phone that are valid children. A contact
  object whose name and phone are strings or numbers is one.
\<close>

definition renderable_contact :: "jsval \<Rightarrow> bool" where
  "renderable_contact contact \<longleftrightarrow>
     \<not> nullish contact \<and> stringifiable (own_field contact (lit ''phone''))
     \<and> valid_child (own_field contact (lit ''name''))
     \<and> valid_child (own_field contact (lit ''phone''))"

text \<open>
  The banner part of what \<open>Chat\<close> renders: \<open>EmergencyBanner\<close> on the stored contacts
  exactly when \<open>showEmergencyBanner\<close> is set. The rest of the tree is not part of it.
\<close>

definition banner_view :: "chat_state \<Rightarrow> (js_error + contact_link list) option" where
  "banner_view s =
     (if showEmergencyBanner s then Some (EmergencyBanner (emergencyContacts s)) else None)"

datatype icon = CheckCircle2 | AlertTriangle | AlertCircle

record badge =
  badge_color :: jsstring
  badge_icon :: icon
  badge_text :: jsstring

definition badge_high :: badge where
  "badge_high = \<lparr>badge_color = lit ''bg-wellness-green'', badge_icon = CheckCircle2,
                 badge_text = lit ''High Confidence''\<rparr>"

definition badge_medium :: badge where
  "badge_medium = \<lparr>badge_color = lit ''bg-wellness-yellow'', badge_icon = AlertTriangle,
                   badge_text = lit ''Medium Confidence''\<rparr>"

definition badge_low :: badge where
  "badge_low = \<lparr>badge_color = lit ''bg-wellness-red'', badge_icon = AlertCircle,
                badge_text = lit ''Low Confidence''\<rparr>"

text \<open>
  \<open>badges\<close> is an object literal, so a property read finds its three own properties
  and, through the prototype chain, the members of \<open>Object.prototype\<close>. An inherited
  member is a function (for \<open>__proto__\<close> the prototype object itself): truthy, and
  without \<open>color\<close>, \<open>icon\<close> or \<open>text\<close>.
\<close>

datatype badge_entry = OwnBadge badge | Inherited | Absent

definition object_prototype_keys :: "jsstring list" where
  "object_prototype_keys =
     map lit [''constructor'', ''__proto__'', ''hasOwnProperty'', ''isPrototypeOf'',
              ''propertyIsEnumerable'', ''toLocaleString'', ''toString'', ''valueOf'',
              ''__defineGetter__'', ''__defineSetter__'', ''__lookupGetter__'',
              ''__lookupSetter__'']"

definition badges :: "jsstring \<Rightarrow> badge_entry" where
  "badges k =
     (if k = lit ''high'' then OwnBadge badge_high
      else if k = lit ''medium'' then OwnBadge badge_medium
      else if k = lit ''low'' then OwnBadge badge_low
      else if k \<in> set object_prototype_keys then Inherited
      else Absent)"

text \<open>
  \<open>badges[confidence]\<close> converts \<open>confidence\<close> to a property key, which raises a
  TypeError when the value does not convert to a string. \<open>badges_at\<close> is the read for
  a value that converts. A string is its own key. An array's key is its elements'
  strings joined by commas, so a one-element array has the key of its element (the
  empty string for \<open>null\<close> and \<open>undefined\<close>), and a longer array has a key with a
  comma. The keys of the other values (\<open>undefined\<close>, \<open>null\<close>, \<open>true\<close>, \<open>false\<close>, a
  decimal numeral, \<open>[object Object]\<close>) and the keys with a comma name no property of
  \<open>badges\<close>.
\<close>

fun badges_at :: "jsval \<Rightarrow> badge_entry" where
  "badges_at (JStr k) = badges k"
| "badges_at (JArr [x]) = badges_at x"
| "badges_at v = Absent"

text \<open>
  The element \<open>getConfidenceBadge\<close> returns, unless the property read raises: the
  class name ends in \<open>badge.color\<close>, the child component is \<open>badge.icon\<close>, the text
  is \<open>badge.text\<close>. A missing \<open>color\<close> prints as \<open>undefined\<close> in the template
  string; a missing \<open>icon\<close> leaves an element without a component, which React
  refuses to render.
\<close>

record badge_element =
  el_className :: jsstring
  el_Icon :: "icon option"
  el_text :: "jsstring option"

definition badge_class :: jsstring where
  "badge_class = lit ''inline-flex items-center gap-1 px-2 py-1 rounded-full text-xs text-white ''"

definition getConfidenceBadge :: "jsval \<Rightarrow> js_error + badge_element" where
  "getConfidenceBadge confidence =
     (if \<not> stringifiable confidence then Inl TypeError
      else
        (case (case badges_at confidence of Absent \<Rightarrow> OwnBadge badge_medium | b \<Rightarrow> b) of
           OwnBadge b \<Rightarrow>
             Inr \<lparr>el_className = badge_class @ badge_color b, el_Icon = Some (badge_icon b),
                  el_text = Some (badge_text b)\<rparr>
         | _ \<Rightarrow>
             Inr \<lparr>el_className = badge_class @ lit ''undefined'', el_Icon = None,
                  el_text = None\<rparr>))"

text \<open>
  \<open>MessageBubble\<close> shows the badge of an assistant message whose \<open>confidence\<close> is
  truthy.
\<close>

definition MessageBubble_badge :: "message \<Rightarrow> (js_error + badge_element) option" where
  "MessageBubble_badge m =
     (case assistant m of
        None \<Rightarrow> None
      | Some a \<Rightarrow>
          (if msg_type m = MsgAssistant \<and> truthy (msg_confidence a)
           then Some (getConfidenceBadge (msg_confidence a)) else None))"


subsection \<open>Sample inputs\<close>

definition sample_state :: chat_state where
  "sample_state =
     (initial_state 0 (lit ''session_0''))\<lparr>inputText := lit '' I feel overwhelmed ''\<rparr>"

definition critical_response :: jsval where
  "critical_response =
     JObj [(lit ''response_id'', JStr (lit ''r1'')),
           (lit ''urgency_level'', JStr (lit ''critical'')),
           (lit ''emergency_contacts'',
              JArr [JObj [(lit ''name'', JStr (lit ''988 Suicide & Crisis Lifeline'')),
                          (lit ''phone'', JStr (lit ''988''))]]),
           (lit ''synthesized_answer'', JNull)]"

definition low_response :: jsval where
  "low_response =
     JObj [(lit ''response_id'', JStr (lit ''r2'')),
           (lit ''urgency_level'', JStr (lit ''low'')),
           (lit ''emergency_contacts'', JArr []),
           (lit ''synthesized_answer'',
              JObj [(lit ''answer'', JStr (lit ''Based on trusted resources...'')),
                    (lit ''confidence'', JStr (lit ''high'')),
                    (lit ''confidence_score'', JNum 0.85)])]"

definition string_contacts_response :: jsval where
  "string_contacts_response =
     JObj [(lit ''response_id'', JStr (lit ''r4'')),
           (lit ''urgency_level'', JStr (lit ''critical'')),
           (lit ''emergency_contacts'', JStr (lit ''911''))]"

definition odd_confidence_response :: jsval where
  "odd_confidence_response =
     JObj [(lit ''response_id'', JStr (lit ''r3'')),
           (lit ''urgency_level'', JStr (lit ''low'')),
           (lit ''synthesized_answer'',
              JObj [(lit ''answer'', JStr (lit ''Based on trusted resources...'')),
                    (lit ''confidence'', JStr (lit ''constructor''))])]"


section \<open>The urgency classifier\<close>

text \<open>
  Modelled from the spec: the data of the UrgencyClassifier (sections 3 and 4.4). Its
  code (\<open>app/services/urgency_classifier.py\<close>) and its pattern table are not among the
  sources, so the table is a parameter and a rule's pattern and negation guard are
  predicates on the query text.
\<close>

datatype urgency_level = Low | Medium | High | Critical

record pattern_rule =
  signal :: string
  pattern :: "string \<Rightarrow> bool"
  negation_guard :: "(string \<Rightarrow> bool) option"
  weight :: nat

text \<open>
  A rule's match is negated when the rule carries a guard and the guard finds the
  trigger in a negated context. A rule fires when it matches and is not negated.
\<close>

definition negated :: "pattern_rule \<Rightarrow> string \<Rightarrow> bool" where
  "negated r txt = (case negation_guard r of None \<Rightarrow> False | Some g \<Rightarrow> g txt)"

definition fires :: "pattern_rule \<Rightarrow> string \<Rightarrow> bool" where
  "fires r txt \<longleftrightarrow> pattern r txt \<and> \<not> negated r txt"

record tier_table =
  critical_rules :: "pattern_rule list"
  high_rules :: "pattern_rule list"
  medium_rules :: "pattern_rule list"
  low_rules :: "pattern_rule list"

text \<open>The ordered table: critical, high, medium, low.\<close>

definition tiers :: "tier_table \<Rightarrow> (urgency_level \<times> pattern_rule list) list" where
  "tiers tbl =
     [(Critical, critical_rules tbl), (High, high_rules tbl), (Medium, medium_rules tbl),
      (Low, low_rules tbl)]"

definition all_rules :: "tier_table \<Rightarrow> pattern_rule list" where
  "all_rules tbl = concat (map snd (tiers tbl))"

text \<open>
  Modelled from the spec: the evaluation order of section 4.4, from the most severe
  tier down; the first tier with a firing rule wins.
\<close>

fun first_match :: "(urgency_level \<times> pattern_rule list) list \<Rightarrow> string \<Rightarrow> urgency_level option" where
  "first_match [] txt = None"
| "first_match ((l, rs) # ts) txt =
     (if list_ex (\<lambda>r. fires r txt) rs then Some l else first_match ts txt)"

record urgency_assessment =
  level :: urgency_level
  risk_score :: nat
  matched_signals :: "string list"

text \<open>
  Modelled from the spec: \<open>classify\<close>, the classifier's function of the query text
  (section 4.4 and, for the default, section 7), which is missing from the sources. The
  level is that of the first tier with a firing rule, and \<open>Low\<close> when no rule fires.
  \<open>risk_score\<close> is the weighted count of all matched rules of all tiers, negated or
  not; \<open>matched_signals\<close> names the rules that fired.
\<close>

definition classify :: "tier_table \<Rightarrow> string \<Rightarrow> urgency_assessment" where
  "classify tbl txt =
     \<lparr>level = (case first_match (tiers tbl) txt of None \<Rightarrow> Low | Some l \<Rightarrow> l),
      risk_score = sum_list (map weight (filter (\<lambda>r. pattern r txt) (all_rules tbl))),
      matched_signals = map signal (filter (\<lambda>r. fires r txt) (all_rules tbl))\<rparr>"

text \<open>The same table with every weight replaced.\<close>

definition reweigh :: "(pattern_rule \<Rightarrow> nat) \<Rightarrow> tier_table \<Rightarrow> tier_table" where
  "reweigh f tbl =
     \<lparr>critical_rules = map (\<lambda>r. r\<lparr>weight := f r\<rparr>) (critical_rules tbl),
      high_rules = map (\<lambda>r. r\<lparr>weight := f r\<rparr>) (high_rules tbl),
      medium_rules = map (\<lambda>r. r\<lparr>weight := f r\<rparr>) (medium_rules tbl),
      low_rules = map (\<lambda>r. r\<lparr>weight := f r\<rparr>) (low_rules tbl)\<rparr>"

subsection \<open>A sample table of keyword rules\<close>

text \<open>
  The spec gives no pattern table. The sample rules here, used to evaluate the
  classifier on a concrete input, are keyword rules: a rule matches when its phrase
  occurs in the text, and its guard, when it has negated phrases, holds when one of
  them occurs.
\<close>

definition occurs_at :: "string \<Rightarrow> string \<Rightarrow> nat \<Rightarrow> bool" where
  "occurs_at phrase txt i \<longleftrightarrow> take (length phrase) (drop i txt) = phrase"

definition contains :: "string \<Rightarrow> string \<Rightarrow> bool" where
  "contains phrase txt = list_ex (occurs_at phrase txt) [0..<Suc (length txt)]"

definition keyword_rule :: "string \<Rightarrow> string list \<Rightarrow> nat \<Rightarrow> pattern_rule" where
  "keyword_rule phrase negations w =
     \<lparr>signal = phrase,
      pattern = contains phrase,
      negation_guard =
        (if negations = [] then None else Some (\<lambda>txt. list_ex (\<lambda>n. contains n txt) negations)),
      weight = w\<rparr>"

definition sample_table :: tier_table where
  "sample_table =
     \<lparr>critical_rules = [keyword_rule ''suicidal'' [''not suicidal''] 10,
                        keyword_rule ''hurt myself'' [] 10],
      high_rules = [keyword_rule ''panic attack'' [] 5, keyword_rule ''desperate'' [] 5],
      medium_rules = [keyword_rule ''anxious'' [] 2, keyword_rule ''sad'' [] 2],
      low_rules = [keyword_rule ''stress'' [] 1]\<rparr>"

definition crisis_query :: string where
  "crisis_query = ''i feel suicidal and the stress is too much''"


section \<open>The synthesizer\<close>

text \<open>
  Modelled from the spec: the data of the Synthesizer (sections 3 and 4.3); its code
  (\<open>app/services/rag_service.py\<close>) is not among the sources. The spec fixes neither the
  wording of the answers nor the formula of \<open>confidence_score\<close>, so the fallback
  wording, the merge of the chunk texts and the score are parameters.
\<close>

datatype confidence_level = LowConfidence | MediumConfidence | HighConfidence

record citation =
  doc_id :: nat
  source_name :: string
  source_url :: string

record retrieval_result =
  chunk_ref :: nat
  chunk_text :: string
  cited :: citation
  similarity :: real
  trust_score :: real
  combined_score :: real

record synthesized_answer =
  answer :: string
  confidence :: confidence_level
  confidence_score :: real
  sources :: "citation list"
  key_points :: "string list"
  related_topics :: "string list"

record synthesizer_config =
  min_similarity :: real
  fallback_text :: string
  merge_texts :: "retrieval_result list \<Rightarrow> string"
  score_of :: "retrieval_result list \<Rightarrow> real"
  topics_of :: "retrieval_result list \<Rightarrow> string list"

text \<open>The fixed thresholds: at least 0.75 is high, at least 0.5 is medium, else low.\<close>

definition confidence_of :: "real \<Rightarrow> confidence_level" where
  "confidence_of x =
     (if 0.75 \<le> x then HighConfidence else if 0.5 \<le> x then MediumConfidence
      else LowConfidence)"

text \<open>
  Modelled from the spec: the fixed fallback answer of section 4.3, with empty sources
  and low confidence.
\<close>

definition fallback_answer :: "synthesizer_config \<Rightarrow> synthesized_answer" where
  "fallback_answer cfg =
     \<lparr>answer = fallback_text cfg, confidence = LowConfidence, confidence_score = 0,
      sources = [], key_points = [], related_topics = []\<rparr>"

text \<open>Key points in descending order of \<open>combined_score\<close> (insertion keeps ties in order).\<close>

fun insert_by_score :: "retrieval_result \<Rightarrow> retrieval_result list \<Rightarrow> retrieval_result list" where
  "insert_by_score r [] = [r]"
| "insert_by_score r (x # xs) =
     (if combined_score x < combined_score r then r # x # xs else x # insert_by_score r xs)"

definition by_score :: "retrieval_result list \<Rightarrow> retrieval_result list" where
  "by_score rs = foldr insert_by_score rs []"

text \<open>
  Modelled from the spec: \<open>synthesize\<close>, the synthesizer's function of the ranked
  retrieval results (section 4.3), which is missing from the sources. Only the results
  that clear the similarity floor are used; without any, the answer is the fallback.
  The citations are grouped by source document, so each document is cited once.
\<close>

definition synthesize :: "synthesizer_config \<Rightarrow> retrieval_result list \<Rightarrow> synthesized_answer" where
  "synthesize cfg results =
     (let used = filter (\<lambda>r. min_similarity cfg \<le> similarity r) results
      in if used = [] then fallback_answer cfg
         else \<lparr>answer = merge_texts cfg used,
               confidence = confidence_of (score_of cfg used),
               confidence_score = score_of cfg used,
               sources = remdups (map cited (by_score used)),
               key_points = map chunk_text (by_score used),
               related_topics = topics_of cfg used\<rparr>)"

definition sample_config :: synthesizer_config where
  "sample_config =
     \<lparr>min_similarity = 0.3,
      fallback_text = ''I do not have enough information to answer that.'',
      merge_texts = (\<lambda>rs. concat (map chunk_text rs)),
      score_of = (\<lambda>rs. sum_list (map combined_score rs) / real (length rs)),
      topics_of = (\<lambda>rs. [])\<rparr>"

definition off_topic_results :: "retrieval_result list" where
  "off_topic_results =
     [\<lparr>chunk_ref = 0, chunk_text = ''Deep breathing reduces anxiety.'',
       cited = \<lparr>doc_id = 1, source_name = ''NIMH'', source_url = ''https://www.nimh.nih.gov''\<rparr>,
       similarity = 0.12, trust_score = 0.9, combined_score = 0.35\<rparr>,
      \<lparr>chunk_ref = 1, chunk_text = ''Sleep supports recovery.'',
       cited = \<lparr>doc_id = 2, source_name = ''CDC'', source_url = ''https://www.cdc.gov''\<rparr>,
       similarity = 0.2, trust_score = 0.8, combined_score = 0.38\<rparr>]"


section \<open>Input validation in the submit handler\<close>

lemma trim_blank: "\<forall>c\<in>set s. js_whitespace c \<Longrightarrow> trim s = []"
proof -
  assume "\<forall>c\<in>set s. js_whitespace c"
  then have "dropWhile js_whitespace s = []"
    by (simp only: dropWhile_eq_Nil_conv)
  then show ?thesis
    unfolding trim_def by (simp only: rev.simps dropWhile.simps)
qed

text \<open>
  Claim C4. When the input text is empty or consists of white space only, the submit
  handler returns at once: it sends no request, adds no message and leaves every
  component of the chat state as it was.
\<close>

theorem handleSendMessage_blank_rejected:
  "\<forall>c\<in>set (inputText s). js_whitespace c \<Longrightarrow>
     handleSendMessage net API_BASE_URL t0 t1 s = (s, None)"
  by (simp add: handleSendMessage_def trim_blank)

theorem handleSendMessage_blank_rejected_witness:
  "handleSendMessage (\<lambda>r. Rejected JNull) (lit ''http://localhost:8000'') 1 2
     ((initial_state 0 (lit ''session_0''))\<lparr>inputText := [0x20, 0x9, 0xA0]\<rparr>)
   = ((initial_state 0 (lit ''session_0''))\<lparr>inputText := [0x20, 0x9, 0xA0]\<rparr>, None)"
proof -
  have h: "\<forall>c\<in>set (inputText ((initial_state 0 (lit ''session_0''))\<lparr>inputText := [0x20, 0x9, 0xA0]\<rparr>)).
             js_whitespace c"
    by (simp add: js_whitespace_def)
  from handleSendMessage_blank_rejected [OF h] show ?thesis .
qed


section \<open>A rejected call\<close>

lemma on_settled_Rejected:
  "on_settled now (Rejected e) s
     = s\<lparr>messages := messages s @ [errorMessage now], isLoading := False\<rparr>"
  by (simp add: on_settled_def on_error_def)

lemma sample_state_sendable:
  "trim (inputText sample_state) \<noteq> []" "\<not> isLoading sample_state"
  by (simp_all add: sample_state_def initial_state_def trim_def js_whitespace_def lit_def)

text \<open>
  Claim C9. When a query is sent and the API call rejects, whatever the error, the chat
  ends with exactly one more message, of type error, after the messages shown before
  and the user message just added, which stay as they were; the emergency banner state
  is untouched and the loading flag is false again.
\<close>

theorem handleSendMessage_rejected_keeps_chat:
  assumes "trim (inputText s) \<noteq> []" and "\<not> isLoading s"
    and "net (sendQuery_request API_BASE_URL (queryData t0 s)) = Rejected err"
  shows "messages (fst (handleSendMessage net API_BASE_URL t0 t1 s))
           = (messages s @ [userMessage t0 s]) @ [errorMessage t1]
         \<and> msg_type (errorMessage t1) = MsgError
         \<and> showEmergencyBanner (fst (handleSendMessage net API_BASE_URL t0 t1 s))
             = showEmergencyBanner s
         \<and> emergencyContacts (fst (handleSendMessage net API_BASE_URL t0 t1 s))
             = emergencyContacts s
         \<and> isLoading (fst (handleSendMessage net API_BASE_URL t0 t1 s)) = False"
  using assms
  by (simp add: handleSendMessage_def sendQuery_def on_settled_Rejected errorMessage_def)

theorem handleSendMessage_rejected_keeps_chat_witness:
  "messages (fst (handleSendMessage (\<lambda>r. Rejected JNull) (lit ''http://localhost:8000'') 1 2
                    sample_state))
     = [welcome_message 0, userMessage 1 sample_state, errorMessage 2]
   \<and> showEmergencyBanner (fst (handleSendMessage (\<lambda>r. Rejected JNull)
                                   (lit ''http://localhost:8000'') 1 2 sample_state)) = False
   \<and> isLoading (fst (handleSendMessage (\<lambda>r. Rejected JNull)
                          (lit ''http://localhost:8000'') 1 2 sample_state)) = False"
proof -
  have c: "(\<lambda>r. Rejected JNull)
             (sendQuery_request (lit ''http://localhost:8000'') (queryData 1 sample_state))
           = Rejected JNull"
    by simp
  from handleSendMessage_rejected_keeps_chat [OF sample_state_sendable c, where ?t1.0 = 2]
  show ?thesis
    by (simp add: sample_state_def initial_state_def)
qed


section \<open>The emergency banner\<close>

lemma urgent_not_nullish:
  "own_field response k = JStr v \<Longrightarrow> \<not> nullish response"
  by (cases response) simp_all

lemma on_settled_urgent:
  assumes "own_field response (lit ''urgency_level'') = JStr (lit ''critical'')
           \<or> own_field response (lit ''urgency_level'') = JStr (lit ''high'')"
  shows "showEmergencyBanner (on_settled now (Resolved response) s)
         \<and> emergencyContacts (on_settled now (Resolved response) s)
             = js_or (own_field response (lit ''emergency_contacts'')) (JArr [])"
proof -
  have "\<not> nullish response"
    using assms urgent_not_nullish by blast
  then show ?thesis
    using assms
    by (auto simp add: on_settled_def on_response_def get_field_def on_error_def Let_def)
qed

lemma on_settled_calm:
  assumes "own_field response (lit ''urgency_level'') \<noteq> JStr (lit ''critical'')"
    and "own_field response (lit ''urgency_level'') \<noteq> JStr (lit ''high'')"
  shows "showEmergencyBanner (on_settled now (Resolved response) s) = showEmergencyBanner s
         \<and> emergencyContacts (on_settled now (Resolved response) s) = emergencyContacts s"
  using assms
  by (simp add: on_settled_def on_response_def get_field_def on_error_def Let_def)

lemma lit_levels:
  "lit ''low'' \<noteq> lit ''critical''" "lit ''low'' \<noteq> lit ''high''"
  "lit ''medium'' \<noteq> lit ''critical''" "lit ''medium'' \<noteq> lit ''high''"
  by (simp_all add: lit_def)

lemma map_entries_contacts:
  "\<forall>c\<in>set cs. renderable_contact c \<Longrightarrow> map_entries cs = Inr (map link_of cs)"
  by (induction cs) (simp_all add: contact_entry_def renderable_contact_def)

lemma valid_links_contacts:
  "\<forall>c\<in>set cs. renderable_contact c \<Longrightarrow> list_all valid_link (map link_of cs)"
  by (induction cs) (simp_all add: renderable_contact_def valid_link_def link_of_def)

lemma EmergencyBanner_contacts:
  "\<forall>c\<in>set cs. renderable_contact c \<Longrightarrow> EmergencyBanner (JArr cs) = Inr (map link_of cs)"
  by (simp add: map_entries_contacts valid_links_contacts)

lemma map_entries_Inr:
  "map_entries cs = Inr ls \<Longrightarrow>
   ls = map link_of cs
   \<and> (\<forall>c\<in>set cs. \<not> nullish c \<and> stringifiable (own_field c (lit ''phone'')))"
  by (induction cs arbitrary: ls)
    (auto simp add: contact_entry_def split: if_splits sum.splits)

text \<open>The banner renders only on an array of contacts that it can show.\<close>

lemma EmergencyBanner_renders:
  assumes "EmergencyBanner v = Inr ls"
  shows "\<exists>cs. v = JArr cs \<and> (\<forall>c\<in>set cs. renderable_contact c) \<and> ls = map link_of cs"
proof (cases v)
  case (JArr cs)
  from assms JArr obtain ls' where m: "map_entries cs = Inr ls'"
    and v: "list_all valid_link ls'" and l: "ls = ls'"
    by (auto split: sum.splits if_splits)
  from map_entries_Inr [OF m] v have "\<forall>c\<in>set cs. renderable_contact c"
    by (auto simp add: renderable_contact_def list_all_iff valid_link_def link_of_def)
  with map_entries_Inr [OF m] l JArr show ?thesis
    by simp
qed (use assms in simp_all)

text \<open>
  Claim C6, as amended. When the response to a sent query has \<open>urgency_level\<close>
  \<open>'critical'\<close> or \<open>'high'\<close>, the banner state is set to shown and holds the response's
  \<open>emergency_contacts\<close>, or the empty list when that field is absent or otherwise
  falsy. \<open>Chat\<close> then passes these contacts to \<open>EmergencyBanner\<close>, which renders no
  link when the field is absent or falsy, and one link per contact when the field is an
  array of contacts that are not \<open>null\<close>, whose phone converts to a string and whose
  name and phone are valid children (strings or numbers, say). With \<open>urgency_level\<close>
  \<open>'low'\<close> or \<open>'medium'\<close> both banner fields keep their values.
\<close>

theorem handleSendMessage_banner:
  assumes "trim (inputText s) \<noteq> []" and "\<not> isLoading s"
    and "net (sendQuery_request API_BASE_URL (queryData t0 s)) = Resolved response"
    and "s' = fst (handleSendMessage net API_BASE_URL t0 t1 s)"
  shows "(own_field response (lit ''urgency_level'') = JStr (lit ''critical'')
           \<or> own_field response (lit ''urgency_level'') = JStr (lit ''high'') \<longrightarrow>
            showEmergencyBanner s'
            \<and> emergencyContacts s'
                = (if truthy (own_field response (lit ''emergency_contacts''))
                   then own_field response (lit ''emergency_contacts'') else JArr [])
            \<and> banner_view s' = Some (EmergencyBanner (emergencyContacts s'))
            \<and> (\<not> truthy (own_field response (lit ''emergency_contacts'')) \<longrightarrow>
                  banner_view s' = Some (Inr []))
            \<and> (\<forall>cs. own_field response (lit ''emergency_contacts'') = JArr cs
                       \<and> (\<forall>c\<in>set cs. renderable_contact c) \<longrightarrow>
                     banner_view s' = Some (Inr (map link_of cs))))
         \<and> (own_field response (lit ''urgency_level'') = JStr (lit ''low'')
           \<or> own_field response (lit ''urgency_level'') = JStr (lit ''medium'') \<longrightarrow>
            showEmergencyBanner s' = showEmergencyBanner s
            \<and> emergencyContacts s' = emergencyContacts s)"
proof (intro conjI impI allI)
  let ?s1 = "s\<lparr>messages := messages s @ [userMessage t0 s], inputText := [],
                isLoading := True\<rparr>"
  let ?ec = "own_field response (lit ''emergency_contacts'')"
  have s': "s' = on_settled t1 (Resolved response) ?s1"
    using assms by (simp add: handleSendMessage_def sendQuery_def)
  assume u: "own_field response (lit ''urgency_level'') = JStr (lit ''critical'')
           \<or> own_field response (lit ''urgency_level'') = JStr (lit ''high'')"
  from on_settled_urgent [OF u, of t1 ?s1]
  have shown: "showEmergencyBanner s'" and ec: "emergencyContacts s' = js_or ?ec (JArr [])"
    by (simp_all add: s')
  show "showEmergencyBanner s'"
    by (rule shown)
  show "emergencyContacts s' = (if truthy ?ec then ?ec else JArr [])"
    by (simp add: ec js_or_def)
  show "banner_view s' = Some (EmergencyBanner (emergencyContacts s'))"
    by (simp add: shown banner_view_def)
  {
    assume "\<not> truthy ?ec"
    then show "banner_view s' = Some (Inr [])"
      by (simp add: shown ec banner_view_def js_or_def)
  }
  {
    fix cs
    assume "?ec = JArr cs \<and> (\<forall>c\<in>set cs. renderable_contact c)"
    then show "banner_view s' = Some (Inr (map link_of cs))"
      by (simp add: shown ec banner_view_def js_or_def map_entries_contacts
          valid_links_contacts)
  }
next
  let ?s1 = "s\<lparr>messages := messages s @ [userMessage t0 s], inputText := [],
                isLoading := True\<rparr>"
  have s': "s' = on_settled t1 (Resolved response) ?s1"
    using assms by (simp add: handleSendMessage_def sendQuery_def)
  assume "own_field response (lit ''urgency_level'') = JStr (lit ''low'')
           \<or> own_field response (lit ''urgency_level'') = JStr (lit ''medium'')"
  then have n1: "own_field response (lit ''urgency_level'') \<noteq> JStr (lit ''critical'')"
    and n2: "own_field response (lit ''urgency_level'') \<noteq> JStr (lit ''high'')"
    using lit_levels by auto
  from on_settled_calm [OF n1 n2, of t1 ?s1]
  show "showEmergencyBanner s' = showEmergencyBanner s"
    and "emergencyContacts s' = emergencyContacts s"
    by (simp_all add: s')
qed

theorem handleSendMessage_banner_witness:
  "showEmergencyBanner (fst (handleSendMessage (\<lambda>r. Resolved critical_response)
                               (lit ''http://localhost:8000'') 1 2 sample_state))
   \<and> banner_view (fst (handleSendMessage (\<lambda>r. Resolved critical_response)
                            (lit ''http://localhost:8000'') 1 2 sample_state))
       = Some (Inr [\<lparr>link_name = JStr (lit ''988 Suicide & Crisis Lifeline''),
                      link_phone = JStr (lit ''988'')\<rparr>])
   \<and> showEmergencyBanner (fst (handleSendMessage (\<lambda>r. Resolved low_response)
                                   (lit ''http://localhost:8000'') 1 2 sample_state)) = False
   \<and> emergencyContacts (fst (handleSendMessage (\<lambda>r. Resolved low_response)
                                 (lit ''http://localhost:8000'') 1 2 sample_state)) = JArr []"
proof -
  let ?hi = "fst (handleSendMessage (\<lambda>r. Resolved critical_response)
                    (lit ''http://localhost:8000'') 1 2 sample_state)"
  let ?lo = "fst (handleSendMessage (\<lambda>r. Resolved low_response)
                    (lit ''http://localhost:8000'') 1 2 sample_state)"
  let ?contact = "JObj [(lit ''name'', JStr (lit ''988 Suicide & Crisis Lifeline'')),
                        (lit ''phone'', JStr (lit ''988''))]"
  have hi: "own_field critical_response (lit ''urgency_level'') = JStr (lit ''critical'')"
    and ec: "own_field critical_response (lit ''emergency_contacts'') = JArr [?contact]"
    by (simp_all add: critical_response_def lit_def)
  have lo: "own_field low_response (lit ''urgency_level'') = JStr (lit ''low'')"
    by (simp add: low_response_def lit_def)
  have a: "(\<lambda>r. Resolved critical_response)
             (sendQuery_request (lit ''http://localhost:8000'') (queryData 1 sample_state))
           = Resolved critical_response"
    and b: "(\<lambda>r. Resolved low_response)
             (sendQuery_request (lit ''http://localhost:8000'') (queryData 1 sample_state))
           = Resolved low_response"
    by simp_all
  have ok: "\<forall>c\<in>set [?contact]. renderable_contact c"
    by (simp add: renderable_contact_def lit_def)
  have 1: "showEmergencyBanner ?hi \<and> banner_view ?hi = Some (Inr (map link_of [?contact]))"
    using handleSendMessage_banner [OF sample_state_sendable a refl] hi ec ok by blast
  have 2: "showEmergencyBanner ?lo = showEmergencyBanner sample_state
           \<and> emergencyContacts ?lo = emergencyContacts sample_state"
    using handleSendMessage_banner [OF sample_state_sendable b refl] lo by blast
  have 3: "map link_of [?contact]
           = [\<lparr>link_name = JStr (lit ''988 Suicide & Crisis Lifeline''),
                link_phone = JStr (lit ''988'')\<rparr>]"
    by (simp add: link_of_def lit_def)
  have 4: "showEmergencyBanner sample_state = False" "emergencyContacts sample_state = JArr []"
    by (simp_all add: sample_state_def initial_state_def)
  from 1 2 3 4 show ?thesis
    by simp
qed

text \<open>
  The claim as worded, with the banner displayed for every such response, fails for a
  response whose \<open>emergency_contacts\<close> is not a list of contacts: for the string
  \<open>'911'\<close> the banner state is set, and \<open>EmergencyBanner\<close> raises a TypeError at
  \<open>contacts.map\<close> instead of rendering.
\<close>

theorem handleSendMessage_banner_counterexample:
  "own_field string_contacts_response (lit ''urgency_level'') = JStr (lit ''critical'')
   \<and> emergencyContacts (fst (handleSendMessage (\<lambda>r. Resolved string_contacts_response)
                                 (lit ''http://localhost:8000'') 1 2 sample_state))
       = JStr (lit ''911'')
   \<and> banner_view (fst (handleSendMessage (\<lambda>r. Resolved string_contacts_response)
                            (lit ''http://localhost:8000'') 1 2 sample_state))
       = Some (Inl TypeError)"
proof -
  have u: "own_field string_contacts_response (lit ''urgency_level'') = JStr (lit ''critical'')"
    and ec: "own_field string_contacts_response (lit ''emergency_contacts'') = JStr (lit ''911'')"
    by (simp_all add: string_contacts_response_def lit_def)
  have s': "fst (handleSendMessage (\<lambda>r. Resolved string_contacts_response)
                   (lit ''http://localhost:8000'') 1 2 sample_state)
            = on_settled 2 (Resolved string_contacts_response)
                (sample_state\<lparr>messages := messages sample_state @ [userMessage 1 sample_state],
                               inputText := [], isLoading := True\<rparr>)"
    using sample_state_sendable by (simp add: handleSendMessage_def sendQuery_def)
  have t: "truthy (JStr (lit ''911''))"
    by (simp add: lit_def)
  from on_settled_urgent [of string_contacts_response 2] u ec t s' show ?thesis
    by (simp add: banner_view_def js_or_def)
qed


section \<open>Timeouts of the API service\<close>

lemma apiClient_requests_bounded:
  "req_timeout (sendQuery_request API_BASE_URL q) = 30000
   \<and> req_timeout (getStats_request API_BASE_URL) = 30000
   \<and> req_timeout (ingestDocument_request API_BASE_URL d) = 30000"
  by (simp add: sendQuery_request_def getStats_request_def ingestDocument_request_def
      issue_def apiClient_def)

text \<open>
  Claim C7 says that every call of the API service, the health check included, carries
  a finite timeout. The three calls through \<open>apiClient\<close> do (30 seconds, lemma above).
  The request of \<open>checkHealth\<close> does not: it is issued on the global axios instance and
  carries the library's default \<open>timeout = 0\<close>, which means no timeout.
\<close>

theorem checkHealth_request_unbounded:
  "req_timeout (checkHealth_request API_BASE_URL) = 0
   \<and> \<not> has_bounded_timeout (checkHealth_request API_BASE_URL)"
  by (simp add: checkHealth_request_def issue_def axios_defaults_def has_bounded_timeout_def)


section \<open>The confidence badge\<close>

lemma getConfidenceBadge_medium:
  "getConfidenceBadge (JStr (lit ''medium''))
     = Inr \<lparr>el_className = badge_class @ lit ''bg-wellness-yellow'', el_Icon = Some AlertTriangle,
            el_text = Some (lit ''Medium Confidence'')\<rparr>"
  by (simp add: getConfidenceBadge_def badges_def badge_medium_def lit_def)

lemma badges_medium: "badges (lit ''medium'') = OwnBadge badge_medium"
  by (simp add: badges_def lit_def)

lemma getConfidenceBadge_unknown_string:
  "k \<noteq> lit ''high'' \<Longrightarrow> k \<noteq> lit ''low'' \<Longrightarrow> k \<notin> set object_prototype_keys \<Longrightarrow>
   getConfidenceBadge (JStr k) = getConfidenceBadge (JStr (lit ''medium''))"
  by (simp add: getConfidenceBadge_def badges_medium) (simp add: badges_def)

lemma getConfidenceBadge_nullish:
  "getConfidenceBadge JUndefined = getConfidenceBadge (JStr (lit ''medium''))"
  "getConfidenceBadge JNull = getConfidenceBadge (JStr (lit ''medium''))"
  by (simp_all add: getConfidenceBadge_def badges_medium)

lemma getConfidenceBadge_raises:
  "getConfidenceBadge (JObj [(lit ''toString'', JNull)]) = Inl TypeError"
  by (simp add: getConfidenceBadge_def)

lemma inherited_key_reaches_badge:
  "MessageBubble_badge (aiMessage odd_confidence_response)
     = Some (getConfidenceBadge (JStr (lit ''constructor'')))"
  by (simp add: MessageBubble_badge_def aiMessage_def odd_confidence_response_def opt_field_def
      lit_def)

text \<open>
  Claim C10 says that \<open>getConfidenceBadge\<close> returns the medium badge for every
  confidence other than \<open>'high'\<close> and \<open>'low'\<close>, any unrecognised string included. It
  does for \<open>undefined\<close>, \<open>null\<close> and the strings that name no member of
  \<open>Object.prototype\<close> (lemmas above). For the string \<open>'constructor'\<close> the read
  \<open>badges[confidence]\<close> finds the inherited member, which is truthy, so the fallback
  \<open>|| badges.medium\<close> is not taken: the element has no icon component and no text, and
  it is not the medium badge.
\<close>

theorem getConfidenceBadge_inherited_key:
  "getConfidenceBadge (JStr (lit ''constructor'')) \<noteq> getConfidenceBadge (JStr (lit ''medium''))
   \<and> getConfidenceBadge (JStr (lit ''constructor''))
       = Inr \<lparr>el_className = badge_class @ lit ''undefined'', el_Icon = None, el_text = None\<rparr>"
  by (simp add: getConfidenceBadge_def badges_def object_prototype_keys_def badge_medium_def
      lit_def)


section \<open>Tier precedence\<close>

lemma first_match_tiers:
  "first_match (tiers tbl) txt =
     (if \<exists>r\<in>set (critical_rules tbl). fires r txt then Some Critical
      else if \<exists>r\<in>set (high_rules tbl). fires r txt then Some High
      else if \<exists>r\<in>set (medium_rules tbl). fires r txt then Some Medium
      else if \<exists>r\<in>set (low_rules tbl). fires r txt then Some Low
      else None)"
  by (simp add: tiers_def list_ex_iff)

lemma fires_reweigh: "fires (r\<lparr>weight := w\<rparr>) txt = fires r txt"
  by (simp add: fires_def negated_def)

lemma list_ex_fires_reweigh:
  "list_ex (\<lambda>r. fires r txt) (map (\<lambda>r. r\<lparr>weight := f r\<rparr>) rs)
     = list_ex (\<lambda>r. fires r txt) rs"
  by (induction rs) (simp_all add: fires_reweigh)

lemma first_match_reweigh:
  "first_match (tiers (reweigh f tbl)) txt = first_match (tiers tbl) txt"
  by (simp add: tiers_def reweigh_def list_ex_fires_reweigh)

lemma level_classify:
  "level (classify tbl txt) =
     (if \<exists>r\<in>set (critical_rules tbl). fires r txt then Critical
      else if \<exists>r\<in>set (high_rules tbl). fires r txt then High
      else if \<exists>r\<in>set (medium_rules tbl). fires r txt then Medium
      else Low)"
  by (simp add: classify_def first_match_tiers)

lemma level_reweigh: "level (classify (reweigh f tbl) txt) = level (classify tbl txt)"
  by (simp add: classify_def first_match_reweigh)

text \<open>
  Claim C2. For every table and query text the level is that of the first tier, from
  critical down to low, that holds a matching, non-negated rule (low when there is
  none). In particular a text that matches a critical-tier rule, the match not being
  negated, classifies as critical, whatever patterns of the low tier or of any other
  tier it also matches; and the level is the same for every choice of the weights
  behind \<open>risk_score\<close>, so the score cannot override the tier.
\<close>

theorem classify_tier_precedence:
  "level (classify tbl txt) =
     (if \<exists>r\<in>set (critical_rules tbl). fires r txt then Critical
      else if \<exists>r\<in>set (high_rules tbl). fires r txt then High
      else if \<exists>r\<in>set (medium_rules tbl). fires r txt then Medium
      else Low)
   \<and> ((\<exists>r\<in>set (critical_rules tbl). pattern r txt \<and> \<not> negated r txt) \<longrightarrow>
        level (classify tbl txt) = Critical)
   \<and> (\<forall>f. level (classify (reweigh f tbl) txt) = level (classify tbl txt))"
proof (intro conjI impI allI)
  show "level (classify tbl txt) =
     (if \<exists>r\<in>set (critical_rules tbl). fires r txt then Critical
      else if \<exists>r\<in>set (high_rules tbl). fires r txt then High
      else if \<exists>r\<in>set (medium_rules tbl). fires r txt then Medium
      else Low)"
    by (rule level_classify)
next
  assume "\<exists>r\<in>set (critical_rules tbl). pattern r txt \<and> \<not> negated r txt"
  then have "\<exists>r\<in>set (critical_rules tbl). fires r txt"
    by (simp add: fires_def)
  then show "level (classify tbl txt) = Critical"
    by (simp add: level_classify)
next
  fix f
  show "level (classify (reweigh f tbl) txt) = level (classify tbl txt)"
    by (rule level_reweigh)
qed

theorem classify_tier_precedence_witness:
  "level (classify sample_table crisis_query) = Critical
   \<and> list_ex (\<lambda>r. pattern r crisis_query) (low_rules sample_table)
   \<and> level (classify (reweigh (\<lambda>r. if signal r = ''stress'' then 1000 else 0) sample_table)
                crisis_query) = Critical"
proof -
  have h: "\<exists>r\<in>set (critical_rules sample_table).
             pattern r crisis_query \<and> \<not> negated r crisis_query"
    by code_simp
  have l: "list_ex (\<lambda>r. pattern r crisis_query) (low_rules sample_table)"
    by code_simp
  have c: "level (classify sample_table crisis_query) = Critical"
    using classify_tier_precedence [of sample_table crisis_query] h by blast
  have "level (classify (reweigh (\<lambda>r. if signal r = ''stress'' then 1000 else 0) sample_table)
                 crisis_query)
        = level (classify sample_table crisis_query)"
    using classify_tier_precedence [of sample_table crisis_query] by blast
  with c l show ?thesis
    by simp
qed


section \<open>The fallback answer\<close>

lemma set_insert_by_score: "set (insert_by_score r xs) = insert r (set xs)"
  by (induction xs) auto

lemma set_by_score: "set (by_score rs) = set rs"
  by (induction rs) (simp_all add: by_score_def set_insert_by_score)

lemma synthesize_below_floor:
  assumes "\<forall>r\<in>set results. similarity r < min_similarity cfg"
  shows "synthesize cfg results = fallback_answer cfg"
proof -
  have "filter (\<lambda>r. min_similarity cfg \<le> similarity r) results = []"
    using assms by (auto simp add: filter_empty_conv)
  then show ?thesis
    by (simp add: synthesize_def)
qed

lemma synthesize_sources: "set (sources (synthesize cfg results)) \<subseteq> cited ` set results"
  by (auto simp add: synthesize_def Let_def fallback_answer_def set_by_score)

text \<open>
  Claim C5. When no retrieval result reaches the minimum similarity, the synthesizer
  returns the fixed fallback answer: its text is the configured fallback wording, its
  sources are empty and its confidence is low. In every case each source the answer
  cites is the citation of a retrieved result.
\<close>

theorem synthesize_fallback:
  "((\<forall>r\<in>set results. similarity r < min_similarity cfg) \<longrightarrow>
      synthesize cfg results = fallback_answer cfg
      \<and> answer (synthesize cfg results) = fallback_text cfg
      \<and> sources (synthesize cfg results) = []
      \<and> confidence (synthesize cfg results) = LowConfidence)
   \<and> set (sources (synthesize cfg results)) \<subseteq> cited ` set results"
proof (intro conjI impI)
  assume a: "\<forall>r\<in>set results. similarity r < min_similarity cfg"
  show "synthesize cfg results = fallback_answer cfg"
    by (rule synthesize_below_floor [OF a])
  then show "answer (synthesize cfg results) = fallback_text cfg"
    and "sources (synthesize cfg results) = []"
    and "confidence (synthesize cfg results) = LowConfidence"
    by (simp_all add: fallback_answer_def)
next
  show "set (sources (synthesize cfg results)) \<subseteq> cited ` set results"
    by (rule synthesize_sources)
qed

theorem synthesize_fallback_witness:
  "synthesize sample_config off_topic_results
     = \<lparr>answer = ''I do not have enough information to answer that.'',
        confidence = LowConfidence, confidence_score = 0, sources = [], key_points = [],
        related_topics = []\<rparr>
   \<and> synthesize sample_config [] = synthesize sample_config off_topic_results"
proof -
  have h: "\<forall>r\<in>set off_topic_results. similarity r < min_similarity sample_config"
    by (simp add: off_topic_results_def sample_config_def)
  have e: "\<forall>r\<in>set ([] :: retrieval_result list). similarity r < min_similarity sample_config"
    by simp
  from synthesize_fallback [of off_topic_results sample_config] h
    synthesize_fallback [of "[]" sample_config] e
  show ?thesis
    by (simp add: fallback_answer_def sample_config_def)
qed

end
